theory Spec2Isabelle
  imports Main "HOL-Library.Word"
begin

section \<open>The RunnerReplicaSet admission webhook\<close>

text \<open>
  Source: \<^verbatim>\<open>api/v1alpha1/runnerreplicaset_webhook.go\<close>.  A Go \<^verbatim>\<open>error\<close> is an
  \<open>option\<close>: \<open>None\<close> is \<^verbatim>\<open>nil\<close>.  The resource types are declared outside the
  file; the records below carry the fields the webhook reads
  (\<^verbatim>\<open>r.Name\<close>, \<^verbatim>\<open>r.Spec.Template.Spec.Repository\<close>, ...) and the fields the
  integration test sets on the same templates (replicas, selector, labels,
  organization, image, group, runner labels, environment).  Embedded Go structs
  are flattened, as Go's field promotion does.
\<close>

typedecl WorkVolumeClaimTemplate

record RunnerSpec =
  Enterprise :: string
  Organization :: string
  Repository :: string
  Labels :: "string list"
  Group :: string
  Image :: string
  Env :: "(string \<times> string) list"
  ServiceAccountName :: string
  WorkVolumeClaimTemplate :: "WorkVolumeClaimTemplate option"

record RunnerTemplate =
  ObjectMeta_Labels :: "(string \<times> string) list"
  Template_Spec :: RunnerSpec

record RunnerReplicaSetSpec =
  Replicas :: "int option"
  Selector_MatchLabels :: "(string \<times> string) list option"
  Template :: RunnerTemplate

record GroupVersionKind =
  GVK_Group :: string
  GVK_Version :: string
  GVK_Kind :: string

record RunnerReplicaSet =
  Name :: string
  TypeMeta :: GroupVersionKind
  Spec :: RunnerReplicaSetSpec

text \<open>
  \<^verbatim>\<open>field.Invalid(path, value, detail)\<close> and \<^verbatim>\<open>apierrors.NewInvalid(kind, name, errs)\<close>
  belong to the Kubernetes libraries; they are kept as constructors.  A path is
  the list of names given to \<^verbatim>\<open>field.NewPath\<close>.
\<close>

datatype BadValue = StringValue string | ClaimTemplateValue "WorkVolumeClaimTemplate option"

datatype FieldError = Invalid (Field: "string list") (Bad: BadValue) (Detail: string)

datatype StatusError = NewInvalid (ErrGroup: string) (ErrKind: string) (ErrName: string) (Causes: "FieldError list")

text \<open>
  The three checks \<^verbatim>\<open>ValidateRepository\<close>, \<^verbatim>\<open>ValidateWorkVolumeClaimTemplate\<close> and
  \<^verbatim>\<open>ValidateIsServiceAccountNameSet\<close> are methods of the runner spec whose bodies
  are not in the file.  Their receiver is \<^verbatim>\<open>r.Spec.Template.Spec\<close>, so each is a
  function of the runner spec alone; the webhook is modelled for any three such
  functions.  \<open>Some msg\<close> is an error whose \<^verbatim>\<open>Error()\<close> text is \<open>msg\<close>.
\<close>

record RunnerSpecMethods =
  ValidateRepository :: "RunnerSpec \<Rightarrow> string option"
  ValidateWorkVolumeClaimTemplate :: "RunnerSpec \<Rightarrow> string option"
  ValidateIsServiceAccountNameSet :: "RunnerSpec \<Rightarrow> string option"

definition repositoryPath :: "string list" where
  "repositoryPath = [''spec'', ''template'', ''spec'', ''repository'']"

definition workVolumeClaimTemplatePath :: "string list" where
  "workVolumeClaimTemplatePath = [''spec'', ''template'', ''spec'', ''workVolumeClaimTemplate'']"

definition serviceAccountNamePath :: "string list" where
  "serviceAccountNamePath = [''spec'', ''template'', ''spec'', ''serviceAccountName'']"

text \<open>\<^verbatim>\<open>errList = append(errList, field.Invalid(...))\<close> when \<^verbatim>\<open>err != nil\<close>.\<close>

definition appendInvalid :: "FieldError list \<Rightarrow> string list \<Rightarrow> BadValue \<Rightarrow> string option \<Rightarrow> FieldError list" where
  "appendInvalid errList path v err =
     (case err of None \<Rightarrow> errList | Some msg \<Rightarrow> errList @ [Invalid path v msg])"

definition Validate :: "RunnerSpecMethods \<Rightarrow> RunnerReplicaSet \<Rightarrow> StatusError option" where
  "Validate m r =
     (let rs = Template_Spec (Template (Spec r));
          errList0 = appendInvalid [] repositoryPath
                       (StringValue (Repository rs)) (ValidateRepository m rs);
          errList1 = appendInvalid errList0 workVolumeClaimTemplatePath
                       (ClaimTemplateValue (WorkVolumeClaimTemplate rs))
                       (ValidateWorkVolumeClaimTemplate m rs);
          errList2 = appendInvalid errList1 serviceAccountNamePath
                       (StringValue (ServiceAccountName rs))
                       (ValidateIsServiceAccountNameSet m rs)
      in if length errList2 > 0
         then Some (NewInvalid (GVK_Group (TypeMeta r)) (GVK_Kind (TypeMeta r)) (Name r) errList2)
         else None)"

text \<open>The log lines of \<^verbatim>\<open>ValidateCreate\<close> and \<^verbatim>\<open>ValidateUpdate\<close> return nothing and are left out.\<close>

definition ValidateCreate :: "RunnerSpecMethods \<Rightarrow> RunnerReplicaSet \<Rightarrow> StatusError option" where
  "ValidateCreate m r = Validate m r"

definition ValidateUpdate :: "RunnerSpecMethods \<Rightarrow> RunnerReplicaSet \<Rightarrow> RunnerReplicaSet \<Rightarrow> StatusError option" where
  "ValidateUpdate m r old = Validate m r"

definition ValidateDelete :: "RunnerReplicaSet \<Rightarrow> StatusError option" where
  "ValidateDelete r = None"

text \<open>
  The paths of the checks that fail on a runner spec, in the order of \<^verbatim>\<open>Validate\<close>.
\<close>

definition failingPaths :: "RunnerSpecMethods \<Rightarrow> RunnerSpec \<Rightarrow> string list list" where
  "failingPaths m rs =
     map fst (filter (\<lambda>(p, e). e \<noteq> None)
       [(repositoryPath, ValidateRepository m rs),
        (workVolumeClaimTemplatePath, ValidateWorkVolumeClaimTemplate m rs),
        (serviceAccountNamePath, ValidateIsServiceAccountNameSet m rs)])"

subsection \<open>Concrete objects and the repository check\<close>

text \<open>
  The template of the integration test's organisation runners
  (\<^verbatim>\<open>Organization: "test", Image: "bar", Group: "baz"\<close>, label \<^verbatim>\<open>foo: bar\<close>).
\<close>

definition testRunnerSpec :: RunnerSpec where
  "testRunnerSpec =
     \<lparr>Enterprise = '''', Organization = ''test'', Repository = '''', Labels = [],
      Group = ''baz'', Image = ''bar'', Env = [(''FOO'', ''FOOVALUE'')],
      ServiceAccountName = '''', WorkVolumeClaimTemplate = None\<rparr>"

definition runnerReplicaSetGVK :: GroupVersionKind where
  "runnerReplicaSetGVK =
     \<lparr>GVK_Group = ''actions.summerwind.dev'', GVK_Version = ''v1alpha1'',
      GVK_Kind = ''RunnerReplicaSet''\<rparr>"

definition testReplicaSet :: RunnerReplicaSet where
  "testReplicaSet =
     \<lparr>Name = ''example-runnerdeploy'', TypeMeta = runnerReplicaSetGVK,
      Spec = \<lparr>Replicas = Some 1,
              Selector_MatchLabels = Some [(''foo'', ''bar'')],
              Template = \<lparr>ObjectMeta_Labels = [(''foo'', ''bar'')],
                          Template_Spec = testRunnerSpec\<rparr>\<rparr>\<rparr>"

text \<open>
  The same object with a negative replica count and a selector that no
  template label matches.
\<close>

definition negativeReplicaSet :: RunnerReplicaSet where
  "negativeReplicaSet =
     \<lparr>Name = ''example-runnerdeploy'', TypeMeta = runnerReplicaSetGVK,
      Spec = \<lparr>Replicas = Some (- 1),
              Selector_MatchLabels = Some [(''foo'', ''other'')],
              Template = \<lparr>ObjectMeta_Labels = [],
                          Template_Spec = testRunnerSpec\<rparr>\<rparr>\<rparr>"

text \<open>The same object with no enterprise, organization or repository at all.\<close>

definition unscopedReplicaSet :: RunnerReplicaSet where
  "unscopedReplicaSet =
     \<lparr>Name = ''example-runnerdeploy'', TypeMeta = runnerReplicaSetGVK,
      Spec = \<lparr>Replicas = Some 1,
              Selector_MatchLabels = Some [(''foo'', ''bar'')],
              Template = \<lparr>ObjectMeta_Labels = [(''foo'', ''bar'')],
                          Template_Spec = testRunnerSpec\<lparr>Organization := ''''\<rparr>\<rparr>\<rparr>\<rparr>"

text \<open>
  Modelled from the spec: the body of \<^verbatim>\<open>RunnerSpec.ValidateRepository\<close> is not in
  the sources.  "Validation rules enforced: exactly one of {enterprise,
  organization, repository} is non-empty".  \<open>scopes\<close> counts the non-empty ones;
  the check passes when the count is one.  The spec does not give the wording
  of the two error messages.
\<close>

definition scopes :: "RunnerSpec \<Rightarrow> nat" where
  "scopes rs =
     (if Enterprise rs = [] then 0 else 1) + (if Organization rs = [] then 0 else 1) +
     (if Repository rs = [] then 0 else 1)"

definition RunnerSpec_ValidateRepository :: "RunnerSpec \<Rightarrow> string option" where
  "RunnerSpec_ValidateRepository rs =
     (if scopes rs = 0
      then Some ''Spec needs enterprise, organization or repository''
      else if scopes rs > 1
      then Some ''Spec cannot have many fields defined enterprise, organization and repository''
      else None)"

text \<open>
  The three checks with that repository check; the other two, of which the
  spec says nothing, pass.
\<close>

definition scopeMethods :: RunnerSpecMethods where
  "scopeMethods =
     \<lparr>ValidateRepository = RunnerSpec_ValidateRepository,
      ValidateWorkVolumeClaimTemplate = (\<lambda>rs. None),
      ValidateIsServiceAccountNameSet = (\<lambda>rs. None)\<rparr>"

section \<open>The controller bootstrap: the GitHub API cache duration\<close>

text \<open>
  Source: \<^verbatim>\<open>main\<close>, after the flags are parsed.  \<^verbatim>\<open>time.Duration\<close> is an \<^verbatim>\<open>int64\<close>
  of nanoseconds; Go's signed subtraction wraps around, as the subtraction
  of \<open>64 word\<close> does, and \<open><s\<close> is the signed comparison.
\<close>

type_synonym Duration = "64 word"

definition Second :: Duration where
  "Second = 1000000000"

record Flags =
  gitHubAPICacheDuration :: Duration
  syncPeriod :: Duration
  defaultScaleDownDelay :: Duration

record HorizontalRunnerAutoscalerReconciler =
  CacheDuration :: Duration
  DefaultScaleDownDelay :: Duration

definition horizontalRunnerAutoscaler :: "Flags \<Rightarrow> HorizontalRunnerAutoscalerReconciler" where
  "horizontalRunnerAutoscaler fl =
     (let d0 = gitHubAPICacheDuration fl;
          d1 = (if d0 = 0 then syncPeriod fl - 10 * Second else d0);
          d2 = (if d1 <s 0 then 0 else d1)
      in \<lparr>CacheDuration = d2, DefaultScaleDownDelay = defaultScaleDownDelay fl\<rparr>)"

section \<open>The autoscaler and the webhook receiver\<close>

text \<open>
  The reconciler of the HorizontalRunnerAutoscaler (HRA) and the webhook
  receiver are exercised by \<^verbatim>\<open>controllers/integration_test.go\<close>, but their code
  is in other files of the repository.  The definitions of this section follow
  the specification (sections 3, 4.4, 4.5 and 6); the fixtures are the ones of
  the integration test.  Times and durations are whole seconds.
\<close>

subsection \<open>Data model\<close>

text \<open>
  Modelled from the spec: the resource types of the autoscaler are not in the
  sources.  "CapacityReservation -- record {effectiveTime, expirationTime,
  replicas} created by a scale-up trigger."
\<close>

record CapacityReservation =
  effectiveTime :: int
  expirationTime :: int
  replicas :: int

text \<open>
  Modelled from the spec: "ScaleUpTrigger -- rule {eventMatcher, amount,
  duration}.  eventMatcher is a tagged variant over {PullRequest{types[],
  branches[]}, Push{branches[]}, CheckRun{types[], status, repositories[]},
  WorkflowJob{}}."
\<close>

datatype EventMatcher =
    PullRequest "string list" "string list"
  | Push "string list"
  | CheckRun "string list" string "string list"
  | WorkflowJob

record ScaleUpTrigger =
  eventMatcher :: EventMatcher
  amount :: int
  duration :: int

text \<open>
  Modelled from the spec: "MetricSpec -- tagged variant over
  {TotalNumberOfQueuedAndInProgressWorkflowRuns{repositoryNames[]},
  PercentageRunnersBusy{...}}."  The second variant works on the fraction of
  busy runners and is left out; no property below configures it.
\<close>

datatype MetricSpec = TotalNumberOfQueuedAndInProgressWorkflowRuns "string list"

text \<open>
  Modelled from the spec: the HRA's attributes "{targetRef, minReplicas,
  maxReplicas, scaleUpTriggers[], metrics[], scaleDownDelaySecondsAfterScaleUp,
  scheduledOverrides[]}".  The spec does not say how a scheduled override's
  bounds are combined with \<open>minReplicas\<close> and \<open>maxReplicas\<close>; the override list is
  left out and the effective bounds are arguments of the reconcile step.
\<close>

record HorizontalRunnerAutoscaler =
  targetRef :: string
  minReplicas :: int
  maxReplicas :: int
  scaleUpTriggers :: "ScaleUpTrigger list"
  metrics :: "MetricSpec list"
  scaleDownDelaySecondsAfterScaleUp :: int

text \<open>
  Modelled from the spec: the HRA's status "{desiredReplicas,
  lastSuccessfulScaleOutTime, capacityReservations[], cacheEntries[]}".  The two
  scalars are absent until first written.  The cache only saves Provider
  calls; the model always asks the Provider, so it has no cache entries.
\<close>

record HRAStatus =
  desiredReplicas :: "int option"
  lastSuccessfulScaleOutTime :: "int option"
  capacityReservations :: "CapacityReservation list"

definition emptyStatus :: HRAStatus where
  "emptyStatus =
     \<lparr>desiredReplicas = None, lastSuccessfulScaleOutTime = None, capacityReservations = []\<rparr>"

subsection \<open>The Provider\<close>

text \<open>
  Modelled from the spec: the Provider client is not in the sources.
  "ListWorkflowRuns(target, status, repoFilter?) -> [{id, status, repository}]";
  the target is a scope "Enterprise | Organization | Repository with an
  associated name".
\<close>

datatype Target = EnterpriseTarget string | OrganizationTarget string | RepositoryTarget string

record WorkflowRun =
  run_id :: nat
  run_status :: string
  run_repository :: string

type_synonym ProviderAPI = "Target \<Rightarrow> string \<Rightarrow> string option \<Rightarrow> WorkflowRun list"

subsection \<open>Desired replicas\<close>

text \<open>
  Modelled from the spec: "Metric: TotalQueuedAndInProgress.  For each
  repository (or all repositories of an organization/enterprise target), list
  workflow runs in statuses queued and in_progress.  metricReplicas := count."
  With no repository names the listing is not filtered.
\<close>

definition listedRuns :: "ProviderAPI \<Rightarrow> Target \<Rightarrow> string option \<Rightarrow> int" where
  "listedRuns p tgt f = int (length (p tgt ''queued'' f)) + int (length (p tgt ''in_progress'' f))"

definition totalQueuedAndInProgress :: "ProviderAPI \<Rightarrow> Target \<Rightarrow> string list \<Rightarrow> int" where
  "totalQueuedAndInProgress p tgt repos =
     (if repos = [] then listedRuns p tgt None
      else sum_list (map (\<lambda>r. listedRuns p tgt (Some r)) repos))"

text \<open>
  Modelled from the spec: "metricReplicas is derived from metrics[]; if no
  metrics configured, metricReplicas = minReplicas."  The spec does not say how
  several metrics combine; the first one decides.
\<close>

definition metricReplicas :: "HorizontalRunnerAutoscaler \<Rightarrow> ProviderAPI \<Rightarrow> Target \<Rightarrow> int" where
  "metricReplicas hra p tgt =
     (case metrics hra of
        [] \<Rightarrow> minReplicas hra
      | TotalNumberOfQueuedAndInProgressWorkflowRuns repos # _ \<Rightarrow>
          totalQueuedAndInProgress p tgt repos)"

text \<open>
  Modelled from the spec: "Active reservations are those with effectiveTime <=
  now < expirationTime" and "reservationSum := the sum of r.replicas over all
  r in capacityReservations with r.effectiveTime <= now < r.expirationTime".
\<close>

definition active :: "int \<Rightarrow> CapacityReservation \<Rightarrow> bool" where
  "active now r = (effectiveTime r \<le> now \<and> now < expirationTime r)"

definition reservationSum :: "int \<Rightarrow> CapacityReservation list \<Rightarrow> int" where
  "reservationSum now rs = sum_list (map replicas (filter (active now) rs))"

text \<open>
  Modelled from the spec: "raw := clamp(baseline + reservationSum,
  effectiveMin, effectiveMax)" with "baseline := max(minReplicas,
  metricReplicas)".  The lower bound is applied first.
\<close>

definition clamp :: "int \<Rightarrow> int \<Rightarrow> int \<Rightarrow> int" where
  "clamp x lo hi = (if x < lo then lo else if hi < x then hi else x)"

definition baseline :: "HorizontalRunnerAutoscaler \<Rightarrow> ProviderAPI \<Rightarrow> Target \<Rightarrow> int" where
  "baseline hra p tgt = max (minReplicas hra) (metricReplicas hra p tgt)"

definition raw :: "HorizontalRunnerAutoscaler \<Rightarrow> int \<Rightarrow> int \<Rightarrow> ProviderAPI \<Rightarrow> Target \<Rightarrow> int \<Rightarrow> HRAStatus \<Rightarrow> int" where
  "raw hra effectiveMin effectiveMax p tgt now st =
     clamp (baseline hra p tgt + reservationSum now (capacityReservations st))
       effectiveMin effectiveMax"

text \<open>
  Modelled from the spec: "The HRA GCs reservations whose expirationTime <= now
  on every reconcile."
\<close>

definition collect :: "int \<Rightarrow> CapacityReservation list \<Rightarrow> CapacityReservation list" where
  "collect now rs = filter (\<lambda>r. now < expirationTime r) rs"

text \<open>
  Modelled from the spec: "If raw < previousDesired AND now -
  lastSuccessfulScaleOutTime < scaleDownDelaySecondsAfterScaleUp, hold
  desiredReplicas := previousDesired and requeue after the remaining delay.
  Else desiredReplicas := raw.  If desiredReplicas > previousDesired, set
  lastSuccessfulScaleOutTime := now."  A comparison with a value that was
  never written is false.  The step returns the new status, the count patched
  into the target RunnerDeployment ("the HRA patches the target
  RunnerDeployment's replica field AND its own status") and the requeue delay.
\<close>

record ReconcileResult =
  newStatus :: HRAStatus
  patchedReplicas :: int
  requeueAfter :: "int option"

definition reconcile :: "HorizontalRunnerAutoscaler \<Rightarrow> int \<Rightarrow> int \<Rightarrow> ProviderAPI \<Rightarrow> Target \<Rightarrow> int \<Rightarrow> HRAStatus \<Rightarrow> ReconcileResult" where
  "reconcile hra effectiveMin effectiveMax p tgt now st =
     (let r = raw hra effectiveMin effectiveMax p tgt now st;
          kept = collect now (capacityReservations st)
      in case (desiredReplicas st, lastSuccessfulScaleOutTime st) of
           (Some prev, Some t) \<Rightarrow>
             if r < prev \<and> now - t < scaleDownDelaySecondsAfterScaleUp hra
             then \<lparr>newStatus = st\<lparr>capacityReservations := kept\<rparr>,
                   patchedReplicas = prev,
                   requeueAfter = Some (scaleDownDelaySecondsAfterScaleUp hra - (now - t))\<rparr>
             else \<lparr>newStatus = \<lparr>desiredReplicas = Some r,
                     lastSuccessfulScaleOutTime = (if prev < r then Some now else Some t),
                     capacityReservations = kept\<rparr>,
                   patchedReplicas = r, requeueAfter = None\<rparr>
         | (Some prev, None) \<Rightarrow>
             \<lparr>newStatus = \<lparr>desiredReplicas = Some r,
                 lastSuccessfulScaleOutTime = (if prev < r then Some now else None),
                 capacityReservations = kept\<rparr>,
               patchedReplicas = r, requeueAfter = None\<rparr>
         | (None, t) \<Rightarrow>
             \<lparr>newStatus = \<lparr>desiredReplicas = Some r,
                 lastSuccessfulScaleOutTime = t,
                 capacityReservations = kept\<rparr>,
               patchedReplicas = r, requeueAfter = None\<rparr>)"

text \<open>
  Modelled from the spec: "Replica source of truth.  spec.replicas unless an
  HRA targets this deployment, in which case the HRA's last-written
  status.desiredReplicas is authoritative", and the active RunnerReplicaSet
  "scales to the HRA-desired count".
\<close>

definition activeReplicaSetReplicas :: "int \<Rightarrow> HRAStatus \<Rightarrow> int" where
  "activeReplicaSetReplicas deploymentReplicas st =
     (case desiredReplicas st of None \<Rightarrow> deploymentReplicas | Some d \<Rightarrow> d)"

subsection \<open>Webhook events\<close>

text \<open>
  Modelled from the spec: "For each event, derive (targetKind, targetName,
  repository, refBranch, eventType, action, status, labels)."
\<close>

record Event =
  targetKind :: string
  targetName :: string
  repository :: string
  refBranch :: string
  eventType :: string
  action :: string
  status :: string
  labels :: "string list"

text \<open>
  Modelled from the spec: "evaluate the tagged eventMatcher against these
  derived fields; matches are ANDed within a trigger (types contains action AND
  branches contains refBranch AND status == status AND repositories is empty OR
  contains repository)".  A matcher applies to events of its own tag.
\<close>

fun matches :: "EventMatcher \<Rightarrow> Event \<Rightarrow> bool" where
  "matches (PullRequest types branches) e =
     (eventType e = ''pull_request'' \<and> action e \<in> set types \<and> refBranch e \<in> set branches)"
| "matches (Push branches) e =
     (eventType e = ''push'' \<and> refBranch e \<in> set branches)"
| "matches (CheckRun types st repositories) e =
     (eventType e = ''check_run'' \<and> action e \<in> set types \<and> st = status e \<and>
      (repositories = [] \<or> repository e \<in> set repositories))"
| "matches WorkflowJob e = (eventType e = ''workflow_job'')"

text \<open>
  Modelled from the spec: the receiver matches the triggers "across all HRAs
  in scope".  An HRA is in scope of an event when the event falls under the
  scope of the RunnerDeployment the HRA targets ("target scope (Enterprise |
  Organization | Repository with an associated name)"): a repository scope
  \<open>owner/name\<close> holds the events of that owner and repository, an organization
  or enterprise scope holds the events whose derived target is of that kind and
  name.  The integration test fixes the cases it uses: events for
  \<^verbatim>\<open>test/valid\<close> scale a deployment of repository \<^verbatim>\<open>test/valid\<close>, the owner being an
  organization (lines 405 to 416) or a user (lines 857 to 870), and a
  deployment of organization \<^verbatim>\<open>test\<close> (lines 278 to 282); an event for
  \<^verbatim>\<open>test/example\<close> does not scale a deployment of repository \<^verbatim>\<open>test/valid\<close>
  (lines 631 to 637).
\<close>

fun inScope :: "Target \<Rightarrow> Event \<Rightarrow> bool" where
  "inScope (RepositoryTarget n) e = (n = targetName e @ ''/'' @ repository e)"
| "inScope (OrganizationTarget n) e = (targetKind e = ''Organization'' \<and> targetName e = n)"
| "inScope (EnterpriseTarget n) e = (targetKind e = ''Enterprise'' \<and> targetName e = n)"

text \<open>
  Modelled from the spec: the receiver appends
  "CapacityReservation{effectiveTime: now, expirationTime: now +
  trigger.duration, replicas: trigger.amount}"; "for each HRA, for each
  trigger, ... on match, append exactly one reservation to that HRA".  An HRA
  that is not in scope is left as it is.  The spec gives no rule for the labels
  of a workflow_job event; they are not compared.
\<close>

definition reservationOf :: "int \<Rightarrow> ScaleUpTrigger \<Rightarrow> CapacityReservation" where
  "reservationOf now t =
     \<lparr>effectiveTime = now, expirationTime = now + duration t, replicas = amount t\<rparr>"

fun appendMatching :: "int \<Rightarrow> Event \<Rightarrow> ScaleUpTrigger list \<Rightarrow> CapacityReservation list \<Rightarrow> CapacityReservation list" where
  "appendMatching now e [] rs = rs"
| "appendMatching now e (t # ts) rs =
     appendMatching now e ts (if matches (eventMatcher t) e then rs @ [reservationOf now t] else rs)"

definition scaleUp :: "HorizontalRunnerAutoscaler \<Rightarrow> Target \<Rightarrow> int \<Rightarrow> Event \<Rightarrow> HRAStatus \<Rightarrow> HRAStatus" where
  "scaleUp hra tgt now e st =
     (if inScope tgt e
      then st\<lparr>capacityReservations :=
                appendMatching now e (scaleUpTriggers hra) (capacityReservations st)\<rparr>
      else st)"

subsection \<open>The fixtures of the integration test\<close>

text \<open>
  The canned answers of the test's Provider (\<^verbatim>\<open>workflowRunsFor3Replicas\<close> and its
  two companions, lines 40 to 42): the default body lists five runs, two
  queued, two in progress and one completed; the body for status \<^verbatim>\<open>queued\<close>
  lists two runs and the body for status \<^verbatim>\<open>in_progress\<close> lists one.  The JSON
  gives each run a status only.
\<close>

record WorkflowRunsResponse =
  total_count :: nat
  workflow_runs :: "WorkflowRun list"

definition run :: "string \<Rightarrow> WorkflowRun" where
  "run s = \<lparr>run_id = 0, run_status = s, run_repository = []\<rparr>"

definition workflowRunsFor3Replicas :: WorkflowRunsResponse where
  "workflowRunsFor3Replicas =
     \<lparr>total_count = 5,
      workflow_runs = [run ''queued'', run ''queued'', run ''in_progress'',
                       run ''in_progress'', run ''completed'']\<rparr>"

definition workflowRunsFor3Replicas_queued :: WorkflowRunsResponse where
  "workflowRunsFor3Replicas_queued =
     \<lparr>total_count = 2, workflow_runs = [run ''queued'', run ''queued'']\<rparr>"

definition workflowRunsFor3Replicas_in_progress :: WorkflowRunsResponse where
  "workflowRunsFor3Replicas_in_progress =
     \<lparr>total_count = 1, workflow_runs = [run ''in_progress'']\<rparr>"

text \<open>
  The handler the test installs for \<^verbatim>\<open>ListRepositoryWorkflowRuns\<close> (lines 81 to 88).
\<close>

record Handler =
  Status :: nat
  Body :: WorkflowRunsResponse
  Statuses :: "(string \<times> WorkflowRunsResponse) list"

definition ListRepositoryWorkflowRuns :: Handler where
  "ListRepositoryWorkflowRuns =
     \<lparr>Status = 200, Body = workflowRunsFor3Replicas,
      Statuses = [(''queued'', workflowRunsFor3Replicas_queued),
                  (''in_progress'', workflowRunsFor3Replicas_in_progress)]\<rparr>"

text \<open>
  Modelled from the spec: the code that serves a handler is in the
  repository's fake Provider, outside the sources.  The spec's
  "ListWorkflowRuns(target, status, repoFilter?)" is answered as the test's
  comment reads the fixture ("See workflowRunsFor3Replicas_queued and
  workflowRunsFor3Replicas_in_progress for GitHub List-Runners API responses
  used while testing"): a listing for a status that has an entry in
  \<^verbatim>\<open>Statuses\<close> gets that entry, any other listing gets \<^verbatim>\<open>Body\<close>.
\<close>

definition serve :: "Handler \<Rightarrow> string \<Rightarrow> WorkflowRunsResponse" where
  "serve h s = (case map_of (Statuses h) s of Some b \<Rightarrow> b | None \<Rightarrow> Body h)"

definition fakeProvider :: "Handler \<Rightarrow> ProviderAPI" where
  "fakeProvider h tgt s f = workflow_runs (serve h s)"

definition countStatus :: "string \<Rightarrow> WorkflowRun list \<Rightarrow> nat" where
  "countStatus s rs = length (filter (\<lambda>r. run_status r = s) rs)"

text \<open>
  A Provider that holds a fixed list of runs and answers a listing with the
  runs of the asked status.
\<close>

definition filteringProvider :: "WorkflowRun list \<Rightarrow> ProviderAPI" where
  "filteringProvider rs tgt s f = filter (\<lambda>r. run_status r = s) rs"

text \<open>
  The HRA of the test "should create and scale organization's repository
  runners on check_run event" (lines 467 to 498), over a deployment of
  repository \<^verbatim>\<open>test/valid\<close> with one replica.
\<close>

definition checkRunTrigger :: ScaleUpTrigger where
  "checkRunTrigger =
     \<lparr>eventMatcher = CheckRun [''created''] ''pending'' [''valid'', ''foo'', ''bar''],
      amount = 1, duration = 60\<rparr>"

definition checkRunHRA :: HorizontalRunnerAutoscaler where
  "checkRunHRA =
     \<lparr>targetRef = ''example-runnerdeploy'', minReplicas = 1, maxReplicas = 5,
      scaleUpTriggers = [checkRunTrigger],
      metrics = [TotalNumberOfQueuedAndInProgressWorkflowRuns []],
      scaleDownDelaySecondsAfterScaleUp = 1\<rparr>"

definition testTarget :: Target where
  "testTarget = RepositoryTarget ''test/valid''"

text \<open>
  The event that \<^verbatim>\<open>SendOrgCheckRunEvent(org, repo, status, action)\<close> sends
  (lines 1395 to 1416), in the spec's derived fields.
\<close>

definition SendOrgCheckRunEvent :: "string \<Rightarrow> string \<Rightarrow> string \<Rightarrow> string \<Rightarrow> Event" where
  "SendOrgCheckRunEvent org repo st act =
     \<lparr>targetKind = ''Organization'', targetName = org, repository = repo, refBranch = [],
      eventType = ''check_run'', action = act, status = st, labels = []\<rparr>"

text \<open>
  The HRA of the test "should create and scale organization's repository
  runners on workflow_job event" (lines 586 to 608), over the same deployment,
  and the event that \<^verbatim>\<open>SendWorkflowJobEvent(org, repo, statusAndAction, labels)\<close>
  sends (lines 1418 to 1440).
\<close>

definition workflowJobHRA :: HorizontalRunnerAutoscaler where
  "workflowJobHRA =
     \<lparr>targetRef = ''example-runnerdeploy'', minReplicas = 1, maxReplicas = 5,
      scaleUpTriggers = [\<lparr>eventMatcher = WorkflowJob, amount = 1, duration = 60\<rparr>],
      metrics = [],
      scaleDownDelaySecondsAfterScaleUp = 1\<rparr>"

definition SendWorkflowJobEvent :: "string \<Rightarrow> string \<Rightarrow> string \<Rightarrow> string list \<Rightarrow> Event" where
  "SendWorkflowJobEvent org repo statusAndAction ls =
     \<lparr>targetKind = ''Organization'', targetName = org, repository = repo, refBranch = [],
      eventType = ''workflow_job'', action = statusAndAction, status = statusAndAction,
      labels = ls\<rparr>"

section \<open>Properties of the admission webhook\<close>

lemma appendInvalid_fields:
  "map Field (appendInvalid errs p v e) = map Field errs @ (if e = None then [] else [p])"
  by (cases e) (simp_all add: appendInvalid_def)

lemma appendInvalid_empty:
  "(appendInvalid errs p v e = []) = (errs = [] \<and> e = None)"
  by (cases e) (simp_all add: appendInvalid_def)

lemma Validate_None_iff:
  "(Validate m r = None) =
     (ValidateRepository m (Template_Spec (Template (Spec r))) = None \<and>
      ValidateWorkVolumeClaimTemplate m (Template_Spec (Template (Spec r))) = None \<and>
      ValidateIsServiceAccountNameSet m (Template_Spec (Template (Spec r))) = None)"
  by (auto simp: Validate_def Let_def appendInvalid_empty)

lemma Validate_Some_fields:
  assumes "Validate m r = Some e"
  shows "ErrName e = Name r \<and> ErrGroup e = GVK_Group (TypeMeta r) \<and>
         ErrKind e = GVK_Kind (TypeMeta r) \<and> Causes e \<noteq> [] \<and>
         map Field (Causes e) = failingPaths m (Template_Spec (Template (Spec r)))"
proof -
  let ?rs = "Template_Spec (Template (Spec r))"
  let ?errs = "appendInvalid
      (appendInvalid
        (appendInvalid [] repositoryPath (StringValue (Repository ?rs)) (ValidateRepository m ?rs))
        workVolumeClaimTemplatePath (ClaimTemplateValue (WorkVolumeClaimTemplate ?rs))
        (ValidateWorkVolumeClaimTemplate m ?rs))
      serviceAccountNamePath (StringValue (ServiceAccountName ?rs))
      (ValidateIsServiceAccountNameSet m ?rs)"
  from assms have ne: "?errs \<noteq> []"
    by (auto simp: Validate_def Let_def split: if_splits)
  from assms have e: "e = NewInvalid (GVK_Group (TypeMeta r)) (GVK_Kind (TypeMeta r)) (Name r) ?errs"
    by (auto simp: Validate_def Let_def split: if_splits)
  have "map Field ?errs = failingPaths m ?rs"
    by (simp add: appendInvalid_fields failingPaths_def)
  with ne e show ?thesis by simp
qed

lemma Validate_frame:
  "Validate m (r\<lparr>Spec := (Spec r)\<lparr>Replicas := n, Selector_MatchLabels := s,
        Template := (Template (Spec r))\<lparr>ObjectMeta_Labels := l\<rparr>\<rparr>\<rparr>) = Validate m r"
  by (simp add: Validate_def Let_def)

text \<open>
  C9.  \<^verbatim>\<open>ValidateDelete\<close> returns \<^verbatim>\<open>nil\<close> for every receiver: it takes none of the
  three checks, and an object that \<^verbatim>\<open>Validate\<close> rejects, under whatever checks,
  is still let through on delete.
\<close>

theorem ValidateDelete_nil:
  "ValidateDelete r = None \<and> (\<forall>m. Validate m r \<noteq> None \<longrightarrow> ValidateDelete r = None)"
proof
  show "ValidateDelete r = None"
    by (simp add: ValidateDelete_def)
  then show "\<forall>m. Validate m r \<noteq> None \<longrightarrow> ValidateDelete r = None"
    by simp
qed

lemma unscoped_rejected:
  "Validate scopeMethods unscopedReplicaSet =
     Some (NewInvalid ''actions.summerwind.dev'' ''RunnerReplicaSet'' ''example-runnerdeploy''
       [Invalid repositoryPath (StringValue '''')
          ''Spec needs enterprise, organization or repository''])"
  by (simp add: Validate_def Let_def scopeMethods_def RunnerSpec_ValidateRepository_def
      scopes_def unscopedReplicaSet_def testRunnerSpec_def runnerReplicaSetGVK_def
      appendInvalid_def)

theorem ValidateDelete_nil_witness:
  "Validate scopeMethods unscopedReplicaSet \<noteq> None \<and> ValidateDelete unscopedReplicaSet = None"
proof -
  have "Validate scopeMethods unscopedReplicaSet \<noteq> None"
    by (simp add: unscoped_rejected)
  with ValidateDelete_nil [of unscopedReplicaSet] show ?thesis
    by blast
qed

lemma paths_distinct:
  "repositoryPath \<noteq> workVolumeClaimTemplatePath" "repositoryPath \<noteq> serviceAccountNamePath"
  by (simp_all add: repositoryPath_def workVolumeClaimTemplatePath_def serviceAccountNamePath_def)

lemma Validate_determined:
  assumes "Name r' = Name r" and "TypeMeta r' = TypeMeta r"
    and "Template_Spec (Template (Spec r')) = Template_Spec (Template (Spec r))"
  shows "Validate m r' = Validate m r"
  using assms by (simp add: Validate_def Let_def)

lemma Validate_first_cause:
  assumes "ValidateRepository m (Template_Spec (Template (Spec r))) = Some msg"
  shows "\<exists>errs. Validate m r =
     Some (NewInvalid (GVK_Group (TypeMeta r)) (GVK_Kind (TypeMeta r)) (Name r)
       (Invalid repositoryPath (StringValue (Repository (Template_Spec (Template (Spec r))))) msg
          # errs))"
proof -
  let ?rs = "Template_Spec (Template (Spec r))"
  have "\<exists>errs. appendInvalid (appendInvalid
        (appendInvalid [] repositoryPath (StringValue (Repository ?rs)) (Some msg))
        workVolumeClaimTemplatePath (ClaimTemplateValue (WorkVolumeClaimTemplate ?rs))
        (ValidateWorkVolumeClaimTemplate m ?rs))
      serviceAccountNamePath (StringValue (ServiceAccountName ?rs))
      (ValidateIsServiceAccountNameSet m ?rs)
      = Invalid repositoryPath (StringValue (Repository ?rs)) msg # errs"
    by (cases "ValidateWorkVolumeClaimTemplate m ?rs";
        cases "ValidateIsServiceAccountNameSet m ?rs") (simp_all add: appendInvalid_def)
  then obtain errs where "appendInvalid (appendInvalid
        (appendInvalid [] repositoryPath (StringValue (Repository ?rs)) (Some msg))
        workVolumeClaimTemplatePath (ClaimTemplateValue (WorkVolumeClaimTemplate ?rs))
        (ValidateWorkVolumeClaimTemplate m ?rs))
      serviceAccountNamePath (StringValue (ServiceAccountName ?rs))
      (ValidateIsServiceAccountNameSet m ?rs)
      = Invalid repositoryPath (StringValue (Repository ?rs)) msg # errs" ..
  with assms show ?thesis
    by (simp add: Validate_def Let_def)
qed

lemma RunnerSpec_ValidateRepository_None:
  "(RunnerSpec_ValidateRepository rs = None) = (scopes rs = 1)"
  by (auto simp: RunnerSpec_ValidateRepository_def)

lemma Validate_bad_scope:
  assumes "ValidateRepository m = RunnerSpec_ValidateRepository"
    and "scopes (Template_Spec (Template (Spec r))) \<noteq> 1"
  shows "Validate m r \<noteq> None"
    and "Validate m r = Some e \<Longrightarrow>
         ErrName e = Name r \<and> ErrKind e = GVK_Kind (TypeMeta r) \<and>
         Field (hd (Causes e)) = repositoryPath \<and>
         Bad (hd (Causes e)) = StringValue (Repository (Template_Spec (Template (Spec r))))"
proof -
  let ?rs = "Template_Spec (Template (Spec r))"
  have "RunnerSpec_ValidateRepository ?rs \<noteq> None"
    using assms(2) by (simp add: RunnerSpec_ValidateRepository_None)
  then obtain msg where msg: "ValidateRepository m ?rs = Some msg"
    by (auto simp: assms(1))
  from Validate_first_cause [OF msg] obtain errs where v: "Validate m r =
      Some (NewInvalid (GVK_Group (TypeMeta r)) (GVK_Kind (TypeMeta r)) (Name r)
        (Invalid repositoryPath (StringValue (Repository ?rs)) msg # errs))" ..
  show "Validate m r \<noteq> None"
    by (simp add: v)
  assume "Validate m r = Some e"
  with v have "e = NewInvalid (GVK_Group (TypeMeta r)) (GVK_Kind (TypeMeta r)) (Name r)
      (Invalid repositoryPath (StringValue (Repository ?rs)) msg # errs)"
    by simp
  then show "ErrName e = Name r \<and> ErrKind e = GVK_Kind (TypeMeta r) \<and>
      Field (hd (Causes e)) = repositoryPath \<and>
      Bad (hd (Causes e)) = StringValue (Repository ?rs)"
    by simp
qed

lemma Validate_one_scope:
  assumes "ValidateRepository m = RunnerSpec_ValidateRepository"
    and "scopes (Template_Spec (Template (Spec r))) = 1"
  shows "(Validate m r = None) =
        (ValidateWorkVolumeClaimTemplate m (Template_Spec (Template (Spec r))) = None \<and>
         ValidateIsServiceAccountNameSet m (Template_Spec (Template (Spec r))) = None)"
    and "Validate m r = Some e \<Longrightarrow> repositoryPath \<notin> set (map Field (Causes e))"
proof -
  let ?rs = "Template_Spec (Template (Spec r))"
  have ok: "ValidateRepository m ?rs = None"
    using assms by (simp add: RunnerSpec_ValidateRepository_None)
  then show "(Validate m r = None) =
      (ValidateWorkVolumeClaimTemplate m ?rs = None \<and>
       ValidateIsServiceAccountNameSet m ?rs = None)"
    by (simp add: Validate_None_iff)
  assume a: "Validate m r = Some e"
  have "map Field (Causes e) = failingPaths m ?rs"
    using Validate_Some_fields [OF a] by simp
  moreover have "repositoryPath \<notin> set (failingPaths m ?rs)"
    using ok paths_distinct by (auto simp: failingPaths_def)
  ultimately show "repositoryPath \<notin> set (map Field (Causes e))"
    by simp
qed

text \<open>
  C8, as the code has it.  On create and on update the webhook runs \<^verbatim>\<open>Validate\<close>.
  With the repository check of the runner spec being the rule "exactly one of
  enterprise, organization and repository is non-empty", a write that breaks
  the rule is rejected with an Invalid error for the object's kind and name
  whose first cause names \<^verbatim>\<open>spec.template.spec.repository\<close> and carries the
  repository as the bad value; a write that keeps the rule is admitted exactly
  when the two other checks of the runner spec pass, and no cause of a
  rejection names the repository path then.  The causes name, in order, the
  paths of the checks that failed.  Nothing else is enforced: the answer is
  determined by the object's name, kind and template runner spec, so it is the
  same for every replica count, selector and set of template labels.
\<close>

theorem Validate_enforces_one_scope:
  assumes "ValidateRepository m = RunnerSpec_ValidateRepository"
  shows "ValidateCreate m r = Validate m r \<and> ValidateUpdate m r old = Validate m r \<and>
   (scopes (Template_Spec (Template (Spec r))) \<noteq> 1 \<longrightarrow>
      Validate m r \<noteq> None \<and>
      (\<forall>e. Validate m r = Some e \<longrightarrow>
         ErrName e = Name r \<and> ErrKind e = GVK_Kind (TypeMeta r) \<and>
         Field (hd (Causes e)) = repositoryPath \<and>
         Bad (hd (Causes e)) = StringValue (Repository (Template_Spec (Template (Spec r)))))) \<and>
   (scopes (Template_Spec (Template (Spec r))) = 1 \<longrightarrow>
      (Validate m r = None) =
        (ValidateWorkVolumeClaimTemplate m (Template_Spec (Template (Spec r))) = None \<and>
         ValidateIsServiceAccountNameSet m (Template_Spec (Template (Spec r))) = None) \<and>
      (\<forall>e. Validate m r = Some e \<longrightarrow> repositoryPath \<notin> set (map Field (Causes e)))) \<and>
   (\<forall>e. Validate m r = Some e \<longrightarrow>
      ErrName e = Name r \<and> ErrKind e = GVK_Kind (TypeMeta r) \<and> Causes e \<noteq> [] \<and>
      map Field (Causes e) = failingPaths m (Template_Spec (Template (Spec r)))) \<and>
   (Name r' = Name r \<and> TypeMeta r' = TypeMeta r \<and>
    Template_Spec (Template (Spec r')) = Template_Spec (Template (Spec r)) \<longrightarrow>
      Validate m r' = Validate m r) \<and>
   Validate m (r\<lparr>Spec := (Spec r)\<lparr>Replicas := n, Selector_MatchLabels := s,
        Template := (Template (Spec r))\<lparr>ObjectMeta_Labels := l\<rparr>\<rparr>\<rparr>) = Validate m r"
proof -
  let ?rs = "Template_Spec (Template (Spec r))"
  have 1: "ValidateCreate m r = Validate m r"
    by (simp add: ValidateCreate_def)
  have 2: "ValidateUpdate m r old = Validate m r"
    by (simp add: ValidateUpdate_def)
  have 3: "scopes ?rs \<noteq> 1 \<longrightarrow>
      Validate m r \<noteq> None \<and>
      (\<forall>e. Validate m r = Some e \<longrightarrow>
         ErrName e = Name r \<and> ErrKind e = GVK_Kind (TypeMeta r) \<and>
         Field (hd (Causes e)) = repositoryPath \<and>
         Bad (hd (Causes e)) = StringValue (Repository ?rs))"
    using Validate_bad_scope [OF assms] by blast
  have 4: "scopes ?rs = 1 \<longrightarrow>
      (Validate m r = None) =
        (ValidateWorkVolumeClaimTemplate m ?rs = None \<and>
         ValidateIsServiceAccountNameSet m ?rs = None) \<and>
      (\<forall>e. Validate m r = Some e \<longrightarrow> repositoryPath \<notin> set (map Field (Causes e)))"
    using Validate_one_scope [OF assms] by blast
  have 5: "\<forall>e. Validate m r = Some e \<longrightarrow>
      ErrName e = Name r \<and> ErrKind e = GVK_Kind (TypeMeta r) \<and> Causes e \<noteq> [] \<and>
      map Field (Causes e) = failingPaths m ?rs"
    using Validate_Some_fields by blast
  have 6: "Name r' = Name r \<and> TypeMeta r' = TypeMeta r \<and>
      Template_Spec (Template (Spec r')) = ?rs \<longrightarrow> Validate m r' = Validate m r"
    using Validate_determined by blast
  have 7: "Validate m (r\<lparr>Spec := (Spec r)\<lparr>Replicas := n, Selector_MatchLabels := s,
        Template := (Template (Spec r))\<lparr>ObjectMeta_Labels := l\<rparr>\<rparr>\<rparr>) = Validate m r"
    by (rule Validate_frame)
  show ?thesis
    apply (intro conjI)
          apply (rule 1)
         apply (rule 2)
        apply (rule 3)
       apply (rule 4)
      apply (rule 5)
     apply (rule 6)
    apply (rule 7)
    done
qed

text \<open>
  The object of the integration test names one scope and is admitted; without
  a scope it is rejected, and the one cause names the repository path.
\<close>

theorem Validate_enforces_one_scope_witness:
  "scopes (Template_Spec (Template (Spec unscopedReplicaSet))) = 0 \<and>
   ValidateCreate scopeMethods unscopedReplicaSet \<noteq> None \<and>
   Field (hd (Causes (the (ValidateCreate scopeMethods unscopedReplicaSet)))) = repositoryPath \<and>
   ErrName (the (ValidateCreate scopeMethods unscopedReplicaSet)) = ''example-runnerdeploy'' \<and>
   scopes (Template_Spec (Template (Spec testReplicaSet))) = 1 \<and>
   ValidateCreate scopeMethods testReplicaSet = None"
proof -
  have m: "ValidateRepository scopeMethods = RunnerSpec_ValidateRepository"
    by (simp add: scopeMethods_def)
  have s0: "scopes (Template_Spec (Template (Spec unscopedReplicaSet))) = 0"
    by (simp add: scopes_def unscopedReplicaSet_def testRunnerSpec_def)
  have s1: "scopes (Template_Spec (Template (Spec testReplicaSet))) = 1"
    by (simp add: scopes_def testReplicaSet_def testRunnerSpec_def)
  note t0 = Validate_enforces_one_scope [OF m, where r = unscopedReplicaSet
      and r' = unscopedReplicaSet and old = unscopedReplicaSet and n = None and s = None
      and l = "[]"]
  note t1 = Validate_enforces_one_scope [OF m, where r = testReplicaSet
      and r' = testReplicaSet and old = testReplicaSet and n = None and s = None
      and l = "[]"]
  have c0: "ValidateCreate scopeMethods unscopedReplicaSet = Validate scopeMethods unscopedReplicaSet"
    using t0 by (elim conjE)
  have b0: "scopes (Template_Spec (Template (Spec unscopedReplicaSet))) \<noteq> 1 \<longrightarrow>
      Validate scopeMethods unscopedReplicaSet \<noteq> None \<and>
      (\<forall>e. Validate scopeMethods unscopedReplicaSet = Some e \<longrightarrow>
         ErrName e = Name unscopedReplicaSet \<and>
         ErrKind e = GVK_Kind (TypeMeta unscopedReplicaSet) \<and>
         Field (hd (Causes e)) = repositoryPath \<and>
         Bad (hd (Causes e)) =
           StringValue (Repository (Template_Spec (Template (Spec unscopedReplicaSet)))))"
    using t0 by (elim conjE)
  have c1: "ValidateCreate scopeMethods testReplicaSet = Validate scopeMethods testReplicaSet"
    using t1 by (elim conjE)
  have g1: "scopes (Template_Spec (Template (Spec testReplicaSet))) = 1 \<longrightarrow>
      (Validate scopeMethods testReplicaSet = None) =
        (ValidateWorkVolumeClaimTemplate scopeMethods
           (Template_Spec (Template (Spec testReplicaSet))) = None \<and>
         ValidateIsServiceAccountNameSet scopeMethods
           (Template_Spec (Template (Spec testReplicaSet))) = None) \<and>
      (\<forall>e. Validate scopeMethods testReplicaSet = Some e \<longrightarrow>
         repositoryPath \<notin> set (map Field (Causes e)))"
    using t1 by (elim conjE)
  from b0 s0 obtain e where e: "Validate scopeMethods unscopedReplicaSet = Some e"
    and f: "Field (hd (Causes e)) = repositoryPath" and n: "ErrName e = Name unscopedReplicaSet"
    by fastforce
  have "Validate scopeMethods testReplicaSet = None"
    using g1 s1 by (simp add: scopeMethods_def)
  with c0 c1 e f n s0 s1 show ?thesis
    by (simp add: unscopedReplicaSet_def)
qed

text \<open>
  C8, as the claim states it, fails: a write with \<^verbatim>\<open>replicas = -1\<close> and a selector
  that matches none of the template's labels, which names exactly one scope
  and passes the two other checks, is admitted on create and on update.
\<close>

theorem Validate_admits_negative_replicas:
  "Replicas (Spec negativeReplicaSet) = Some (- 1) \<and>
   Selector_MatchLabels (Spec negativeReplicaSet) = Some [(''foo'', ''other'')] \<and>
   ObjectMeta_Labels (Template (Spec negativeReplicaSet)) = [] \<and>
   scopes (Template_Spec (Template (Spec negativeReplicaSet))) = 1 \<and>
   ValidateCreate scopeMethods negativeReplicaSet = None \<and>
   ValidateUpdate scopeMethods negativeReplicaSet testReplicaSet = None"
proof -
  have "Validate scopeMethods negativeReplicaSet = None"
    by (simp add: Validate_None_iff scopeMethods_def RunnerSpec_ValidateRepository_def
        scopes_def negativeReplicaSet_def testRunnerSpec_def)
  then show ?thesis
    by (simp add: ValidateCreate_def ValidateUpdate_def negativeReplicaSet_def scopes_def
        testRunnerSpec_def)
qed

section \<open>Properties of the bootstrap\<close>

lemma sint_Second: "sint (10 * Second) = 10000000000"
  by (simp add: Second_def)

lemma sint_sub_no_wrap:
  fixes a b :: Duration
  assumes "- (2 ^ 63) \<le> sint a - sint b" "sint a - sint b < 2 ^ 63"
  shows "sint (a - b) = sint a - sint b"
proof -
  have "sint (a - b) = signed_take_bit 63 (sint a - sint b)"
    by (simp add: sint_word_ariths)
  also have "\<dots> = sint a - sint b"
    using assms by (simp add: signed_take_bit_int_eq_self)
  finally show ?thesis .
qed

text \<open>
  C10, as the code has it.  The cache duration handed to the reconciler is never
  negative, whatever the two flags are: a \<^verbatim>\<open>github-api-cache-duration\<close> of 0 is
  replaced by the sync period minus ten seconds in wrapping 64-bit arithmetic,
  and a negative result or a negative flag becomes 0.  With the flag at 0, a
  sync period shorter than ten seconds disables caching provided the
  subtraction does not wrap, that is, the sync period is at least the smallest
  duration plus ten seconds.
\<close>

theorem CacheDuration_not_negative:
  "0 \<le>s CacheDuration (horizontalRunnerAutoscaler fl) \<and>
   (gitHubAPICacheDuration fl = 0 \<longrightarrow>
      CacheDuration (horizontalRunnerAutoscaler fl) =
        (if syncPeriod fl - 10 * Second <s 0 then 0 else syncPeriod fl - 10 * Second)) \<and>
   (gitHubAPICacheDuration fl \<noteq> 0 \<longrightarrow>
      CacheDuration (horizontalRunnerAutoscaler fl) =
        (if gitHubAPICacheDuration fl <s 0 then 0 else gitHubAPICacheDuration fl)) \<and>
   (gitHubAPICacheDuration fl = 0 \<and> sint (syncPeriod fl) < 10000000000 \<and>
    - (2 ^ 63) + 10000000000 \<le> sint (syncPeriod fl) \<longrightarrow>
      CacheDuration (horizontalRunnerAutoscaler fl) = 0)"
proof (intro conjI impI)
  show "0 \<le>s CacheDuration (horizontalRunnerAutoscaler fl)"
    by (simp add: horizontalRunnerAutoscaler_def Let_def word_sle_eq word_sless_alt)
  show "gitHubAPICacheDuration fl = 0 \<Longrightarrow>
      CacheDuration (horizontalRunnerAutoscaler fl) =
        (if syncPeriod fl - 10 * Second <s 0 then 0 else syncPeriod fl - 10 * Second)"
    by (simp add: horizontalRunnerAutoscaler_def Let_def)
  show "gitHubAPICacheDuration fl \<noteq> 0 \<Longrightarrow>
      CacheDuration (horizontalRunnerAutoscaler fl) =
        (if gitHubAPICacheDuration fl <s 0 then 0 else gitHubAPICacheDuration fl)"
    by (simp add: horizontalRunnerAutoscaler_def Let_def)
next
  assume a: "gitHubAPICacheDuration fl = 0 \<and> sint (syncPeriod fl) < 10000000000 \<and>
    - (2 ^ 63) + 10000000000 \<le> sint (syncPeriod fl)"
  have "sint (syncPeriod fl - 10 * Second) = sint (syncPeriod fl) - sint (10 * Second)"
    using a sint_lt [of "syncPeriod fl"]
    by (intro sint_sub_no_wrap) (simp_all add: sint_Second)
  with a have "syncPeriod fl - 10 * Second <s 0"
    by (simp add: word_sless_alt sint_Second)
  with a show "CacheDuration (horizontalRunnerAutoscaler fl) = 0"
    by (simp add: horizontalRunnerAutoscaler_def Let_def)
qed

text \<open>
  A sync period of five seconds with the flag left at 0: caching is off.  A
  flag of ten minutes is handed on as it is.
\<close>

theorem CacheDuration_not_negative_witness:
  "CacheDuration (horizontalRunnerAutoscaler
     \<lparr>gitHubAPICacheDuration = 0, syncPeriod = 5 * Second,
      defaultScaleDownDelay = 600 * Second\<rparr>) = 0 \<and>
   CacheDuration (horizontalRunnerAutoscaler
     \<lparr>gitHubAPICacheDuration = 600 * Second, syncPeriod = 60 * Second,
      defaultScaleDownDelay = 600 * Second\<rparr>) = 600 * Second"
proof -
  let ?fl = "\<lparr>gitHubAPICacheDuration = 0, syncPeriod = 5 * Second,
              defaultScaleDownDelay = 600 * Second\<rparr>"
  let ?fl' = "\<lparr>gitHubAPICacheDuration = 600 * Second, syncPeriod = 60 * Second,
              defaultScaleDownDelay = 600 * Second\<rparr>"
  have "gitHubAPICacheDuration ?fl = 0 \<and> sint (syncPeriod ?fl) < 10000000000 \<and>
    - (2 ^ 63) + 10000000000 \<le> sint (syncPeriod ?fl)"
    by (simp add: Second_def)
  with CacheDuration_not_negative [of ?fl]
  have first: "CacheDuration (horizontalRunnerAutoscaler ?fl) = 0"
    by blast
  have "gitHubAPICacheDuration ?fl' \<noteq> 0" "\<not> gitHubAPICacheDuration ?fl' <s 0"
    by (simp_all add: Second_def word_sless_alt)
  with CacheDuration_not_negative [of ?fl']
  have "CacheDuration (horizontalRunnerAutoscaler ?fl') = gitHubAPICacheDuration ?fl'"
    by simp
  with first show ?thesis
    by simp
qed

text \<open>
  C10, as the claim states it, fails near the smallest duration.  The flag value
  \<^verbatim>\<open>--sync-period=-2562047h47m16s\<close> is \<open>- 9223372036\<close> seconds, which is shorter than
  ten seconds; with the cache flag at 0 the subtraction of ten seconds wraps
  to a positive duration, and caching stays on.
\<close>

theorem CacheDuration_wraps_at_smallest_syncPeriod:
  "- (9223372036 * Second) <s 10 * Second \<and>
   sint (- (9223372036 * Second)) = - 9223372036000000000 \<and>
   CacheDuration (horizontalRunnerAutoscaler
     \<lparr>gitHubAPICacheDuration = 0, syncPeriod = - (9223372036 * Second),
      defaultScaleDownDelay = 600 * Second\<rparr>) = 9223372027709551616 \<and>
   CacheDuration (horizontalRunnerAutoscaler
     \<lparr>gitHubAPICacheDuration = 0, syncPeriod = - (9223372036 * Second),
      defaultScaleDownDelay = 600 * Second\<rparr>) \<noteq> 0"
  by (simp add: horizontalRunnerAutoscaler_def Let_def Second_def word_sless_alt)

section \<open>Properties of the autoscaler\<close>

lemma metricReplicas_listing:
  assumes "metrics hra = TotalNumberOfQueuedAndInProgressWorkflowRuns [] # ms"
  shows "metricReplicas hra p tgt =
     int (length (p tgt ''queued'' None)) + int (length (p tgt ''in_progress'' None))"
  using assms by (simp add: metricReplicas_def totalQueuedAndInProgress_def listedRuns_def)

lemma reconcile_first_write:
  assumes "desiredReplicas st = None"
  shows "desiredReplicas (newStatus (reconcile hra lo hi p tgt now st)) = Some (raw hra lo hi p tgt now st)"
    and "patchedReplicas (reconcile hra lo hi p tgt now st) = raw hra lo hi p tgt now st"
  using assms by (simp_all add: reconcile_def Let_def)

lemma reservationSum_Nil: "reservationSum now [] = 0"
  by (simp add: reservationSum_def)

lemma reservationSum_append:
  "reservationSum now (rs @ [r]) = reservationSum now rs + (if active now r then replicas r else 0)"
  by (simp add: reservationSum_def)

lemma fixture_listings:
  "length (fakeProvider ListRepositoryWorkflowRuns tgt ''queued'' f) = 2"
  "length (fakeProvider ListRepositoryWorkflowRuns tgt ''in_progress'' f) = 1"
  by (simp_all add: fakeProvider_def serve_def ListRepositoryWorkflowRuns_def
      workflowRunsFor3Replicas_queued_def workflowRunsFor3Replicas_in_progress_def)

text \<open>
  The Provider of the integration test lists two runs as queued and one as in
  progress, and the first reconcile of the test's HRA writes three, the count
  the test waits for (line 503).
\<close>

lemma fixture_first_reconcile:
  "newStatus (reconcile checkRunHRA 1 5 (fakeProvider ListRepositoryWorkflowRuns) testTarget now emptyStatus)
     = \<lparr>desiredReplicas = Some 3, lastSuccessfulScaleOutTime = None, capacityReservations = []\<rparr>"
proof -
  have m: "metricReplicas checkRunHRA (fakeProvider ListRepositoryWorkflowRuns) testTarget = 3"
    by (simp add: metricReplicas_listing [where ms = "[]"] checkRunHRA_def fixture_listings)
  have b: "minReplicas checkRunHRA = 1"
    by (simp add: checkRunHRA_def)
  have "raw checkRunHRA 1 5 (fakeProvider ListRepositoryWorkflowRuns) testTarget now emptyStatus = 3"
    by (simp add: raw_def baseline_def m b clamp_def reservationSum_Nil emptyStatus_def)
  then show ?thesis
    by (simp add: reconcile_def Let_def emptyStatus_def collect_def)
qed

lemma clamp_inside: "lo \<le> x \<Longrightarrow> x \<le> hi \<Longrightarrow> clamp x lo hi = x"
  by (simp add: clamp_def)

text \<open>
  C2.  Let the Provider report the runs \<open>rs\<close>: its listing for status \<^verbatim>\<open>queued\<close>
  holds the queued runs of \<open>rs\<close> and its listing for \<^verbatim>\<open>in_progress\<close> the runs in
  progress.  For an HRA whose metric is
  TotalNumberOfQueuedAndInProgressWorkflowRuns, \<open>metricReplicas\<close> is the number
  of queued runs plus the number of runs in progress; the first reconcile of
  the HRA, which has no reservations yet, writes that number raised to
  \<open>minReplicas\<close> and clamped to \<open>maxReplicas\<close>, and the active RunnerReplicaSet
  takes it.  With bounds 1 and 5 and two queued and two in-progress runs among
  those reported, whatever the other runs are, a deployment at one replica
  goes to four in that one reconcile.
\<close>

theorem first_reconcile_counts_queued_and_in_progress:
  assumes "metrics hra = TotalNumberOfQueuedAndInProgressWorkflowRuns [] # ms"
    and "desiredReplicas st = None"
    and "capacityReservations st = []"
    and "p tgt ''queued'' None = filter (\<lambda>r. run_status r = ''queued'') rs"
    and "p tgt ''in_progress'' None = filter (\<lambda>r. run_status r = ''in_progress'') rs"
  shows "metricReplicas hra p tgt =
           int (countStatus ''queued'' rs) + int (countStatus ''in_progress'' rs) \<and>
         desiredReplicas (newStatus (reconcile hra (minReplicas hra) (maxReplicas hra) p tgt now st)) =
           Some (clamp (max (minReplicas hra)
                          (int (countStatus ''queued'' rs) + int (countStatus ''in_progress'' rs)))
                   (minReplicas hra) (maxReplicas hra)) \<and>
         patchedReplicas (reconcile hra (minReplicas hra) (maxReplicas hra) p tgt now st) =
           clamp (max (minReplicas hra)
                    (int (countStatus ''queued'' rs) + int (countStatus ''in_progress'' rs)))
             (minReplicas hra) (maxReplicas hra) \<and>
         (minReplicas hra = 1 \<and> maxReplicas hra = 5 \<and>
          countStatus ''queued'' rs = 2 \<and> countStatus ''in_progress'' rs = 2 \<longrightarrow>
            activeReplicaSetReplicas 1
              (newStatus (reconcile hra (minReplicas hra) (maxReplicas hra) p tgt now st)) = 4)"
proof -
  let ?n = "int (countStatus ''queued'' rs) + int (countStatus ''in_progress'' rs)"
  let ?c = "clamp (max (minReplicas hra) ?n) (minReplicas hra) (maxReplicas hra)"
  have m: "metricReplicas hra p tgt = ?n"
    using assms(4,5) by (simp add: metricReplicas_listing [OF assms(1)] countStatus_def)
  have r: "raw hra (minReplicas hra) (maxReplicas hra) p tgt now st = ?c"
    using assms(3) by (simp add: raw_def baseline_def reservationSum_Nil m)
  have d: "desiredReplicas (newStatus (reconcile hra (minReplicas hra) (maxReplicas hra) p tgt now st))
      = Some ?c"
    using reconcile_first_write(1) [OF assms(2)] r by simp
  have q: "patchedReplicas (reconcile hra (minReplicas hra) (maxReplicas hra) p tgt now st) = ?c"
    using reconcile_first_write(2) [OF assms(2)] r by simp
  have f: "minReplicas hra = 1 \<and> maxReplicas hra = 5 \<and>
      countStatus ''queued'' rs = 2 \<and> countStatus ''in_progress'' rs = 2 \<longrightarrow>
      activeReplicaSetReplicas 1
        (newStatus (reconcile hra (minReplicas hra) (maxReplicas hra) p tgt now st)) = 4"
  proof
    assume "minReplicas hra = 1 \<and> maxReplicas hra = 5 \<and>
      countStatus ''queued'' rs = 2 \<and> countStatus ''in_progress'' rs = 2"
    then have "?c = 4"
      by (simp add: clamp_def)
    then show "activeReplicaSetReplicas 1
        (newStatus (reconcile hra (minReplicas hra) (maxReplicas hra) p tgt now st)) = 4"
      by (simp add: activeReplicaSetReplicas_def d)
  qed
  show ?thesis
    apply (intro conjI)
       apply (rule m)
      apply (rule d)
     apply (rule q)
    apply (rule f)
    done
qed

text \<open>
  The claim's scenario: the five runs of the test's default body, two queued,
  two in progress and one completed, reported by a Provider that lists them by
  status, take the test's HRA and its deployment of one replica to four.
\<close>

theorem first_reconcile_counts_queued_and_in_progress_witness:
  "length (workflow_runs workflowRunsFor3Replicas) = 5 \<and>
   countStatus ''queued'' (workflow_runs workflowRunsFor3Replicas) = 2 \<and>
   countStatus ''in_progress'' (workflow_runs workflowRunsFor3Replicas) = 2 \<and>
   countStatus ''completed'' (workflow_runs workflowRunsFor3Replicas) = 1 \<and>
   activeReplicaSetReplicas 1
     (newStatus (reconcile checkRunHRA (minReplicas checkRunHRA) (maxReplicas checkRunHRA)
        (filteringProvider (workflow_runs workflowRunsFor3Replicas)) testTarget 0 emptyStatus)) = 4"
proof -
  let ?rs = "workflow_runs workflowRunsFor3Replicas"
  have rs: "?rs = [run ''queued'', run ''queued'', run ''in_progress'', run ''in_progress'',
      run ''completed'']"
    by (simp add: workflowRunsFor3Replicas_def)
  have counts: "length ?rs = 5" "countStatus ''queued'' ?rs = 2"
    "countStatus ''in_progress'' ?rs = 2" "countStatus ''completed'' ?rs = 1"
    by (simp_all add: rs countStatus_def run_def)
  have a: "metrics checkRunHRA = TotalNumberOfQueuedAndInProgressWorkflowRuns [] # []"
    by (simp add: checkRunHRA_def)
  have b: "desiredReplicas emptyStatus = None" "capacityReservations emptyStatus = []"
    by (simp_all add: emptyStatus_def)
  have l: "filteringProvider ?rs testTarget ''queued'' None =
      filter (\<lambda>r. run_status r = ''queued'') ?rs"
    "filteringProvider ?rs testTarget ''in_progress'' None =
      filter (\<lambda>r. run_status r = ''in_progress'') ?rs"
    by (simp_all add: filteringProvider_def)
  have bounds: "minReplicas checkRunHRA = 1 \<and> maxReplicas checkRunHRA = 5"
    by (simp add: checkRunHRA_def)
  note t = first_reconcile_counts_queued_and_in_progress [where hra = checkRunHRA
      and ms = "[]" and st = emptyStatus and p = "filteringProvider ?rs" and tgt = testTarget
      and rs = ?rs and now = 0, OF a b l]
  have "minReplicas checkRunHRA = 1 \<and> maxReplicas checkRunHRA = 5 \<and>
      countStatus ''queued'' ?rs = 2 \<and> countStatus ''in_progress'' ?rs = 2 \<longrightarrow>
      activeReplicaSetReplicas 1
        (newStatus (reconcile checkRunHRA (minReplicas checkRunHRA) (maxReplicas checkRunHRA)
           (filteringProvider ?rs) testTarget 0 emptyStatus)) = 4"
    using t by (elim conjE)
  with bounds counts show ?thesis
    by simp
qed

section \<open>Properties of the webhook receiver\<close>

lemma scaleUp_single_trigger:
  assumes "scaleUpTriggers hra = [t]"
  shows "scaleUp hra tgt now e st =
     (if inScope tgt e \<and> matches (eventMatcher t) e
      then st\<lparr>capacityReservations := capacityReservations st @ [reservationOf now t]\<rparr>
      else st)"
  using assms by (simp add: scaleUp_def)

lemma reconcile_no_scale_down:
  assumes "desiredReplicas st = Some prev"
    and "prev \<le> raw hra lo hi p tgt now st"
  shows "desiredReplicas (newStatus (reconcile hra lo hi p tgt now st)) =
     Some (raw hra lo hi p tgt now st)"
  using assms by (cases "lastSuccessfulScaleOutTime st") (simp_all add: reconcile_def Let_def)

lemma raw_scaleUp_cong:
  "raw hra lo hi p tgt now (st\<lparr>capacityReservations := rs\<rparr>) =
     clamp (baseline hra p tgt + reservationSum now rs) lo hi"
  by (simp add: raw_def)

lemma clamp_raised:
  assumes "lo \<le> d" and "d \<le> hi" and "0 \<le> a"
  shows "clamp (d + a) lo hi = (if d + a \<le> hi then d + a else hi)"
    and "d \<le> clamp (d + a) lo hi"
  using assms by (simp_all add: clamp_def)

text \<open>
  C5.  Let the trigger CheckRun{types=[created], status=pending,
  repositories=[valid, foo, bar]} be the only trigger of an HRA.  A check_run
  event with action created and status pending for repository \<^verbatim>\<open>valid\<close> of
  owner \<open>org\<close> is in scope of a deployment of repository \<open>org/valid\<close> and of one
  of organization \<open>org\<close>; for an HRA in scope it appends exactly one
  reservation, of the trigger's amount and duration.  The same event for
  repository \<^verbatim>\<open>example\<close> appends none, whatever the deployment's scope is, also
  where it is in scope, as for a deployment of organization \<open>org\<close>.  The
  conditions of a CheckRun matcher are a conjunction, and an empty repository
  list lets every repository through.  Let the desired count stand at the
  computed count \<open>d\<close>, within the bounds: after the event for \<^verbatim>\<open>example\<close> a
  reconcile leaves it at \<open>d\<close>; after the event for \<^verbatim>\<open>valid\<close>, while the new
  reservation is active, a reconcile moves it to \<open>d\<close> plus the amount, or to the
  upper bound where that is less.
\<close>

theorem check_run_trigger_filters_repositories:
  assumes one: "scaleUpTriggers hra = [t]"
    and m: "eventMatcher t = CheckRun [''created''] ''pending'' [''valid'', ''foo'', ''bar'']"
  shows "inScope (RepositoryTarget (org @ ''/valid''))
           (SendOrgCheckRunEvent org ''valid'' ''pending'' ''created'') \<and>
         inScope (OrganizationTarget org)
           (SendOrgCheckRunEvent org ''valid'' ''pending'' ''created'') \<and>
         inScope (OrganizationTarget org)
           (SendOrgCheckRunEvent org ''example'' ''pending'' ''created'') \<and>
         (inScope tgt (SendOrgCheckRunEvent org ''valid'' ''pending'' ''created'') \<longrightarrow>
            scaleUp hra tgt now (SendOrgCheckRunEvent org ''valid'' ''pending'' ''created'') st =
              st\<lparr>capacityReservations := capacityReservations st @
                   [\<lparr>effectiveTime = now, expirationTime = now + duration t,
                     replicas = amount t\<rparr>]\<rparr>) \<and>
         scaleUp hra tgt now (SendOrgCheckRunEvent org ''example'' ''pending'' ''created'') st = st \<and>
         matches (CheckRun types s repos) e =
           (eventType e = ''check_run'' \<and> action e \<in> set types \<and> s = status e \<and>
            (repos = [] \<or> repository e \<in> set repos)) \<and>
         matches (CheckRun types s []) (e\<lparr>repository := r\<rparr>) = matches (CheckRun types s []) e \<and>
         (desiredReplicas st = Some d \<and>
          d = baseline hra p tgt + reservationSum now' (capacityReservations st) \<and>
          lo \<le> d \<and> d \<le> hi \<longrightarrow>
            desiredReplicas (newStatus (reconcile hra lo hi p tgt now'
              (scaleUp hra tgt now (SendOrgCheckRunEvent org ''example'' ''pending'' ''created'') st)))
              = Some d) \<and>
         (desiredReplicas st = Some d \<and>
          d = baseline hra p tgt + reservationSum now' (capacityReservations st) \<and>
          lo \<le> d \<and> d \<le> hi \<and>
          inScope tgt (SendOrgCheckRunEvent org ''valid'' ''pending'' ''created'') \<and>
          now \<le> now' \<and> now' < now + duration t \<and> 0 \<le> amount t \<longrightarrow>
            desiredReplicas (newStatus (reconcile hra lo hi p tgt now'
              (scaleUp hra tgt now (SendOrgCheckRunEvent org ''valid'' ''pending'' ''created'') st)))
              = Some (if d + amount t \<le> hi then d + amount t else hi))"
proof -
  let ?valid = "SendOrgCheckRunEvent org ''valid'' ''pending'' ''created''"
  let ?example = "SendOrgCheckRunEvent org ''example'' ''pending'' ''created''"
  let ?r = "\<lparr>effectiveTime = now, expirationTime = now + duration t, replicas = amount t\<rparr>"
  have mv: "matches (eventMatcher t) ?valid"
    by (simp add: m SendOrgCheckRunEvent_def)
  have me: "\<not> matches (eventMatcher t) ?example"
    by (simp add: m SendOrgCheckRunEvent_def)
  have 1: "inScope (RepositoryTarget (org @ ''/valid'')) ?valid"
    by (simp add: SendOrgCheckRunEvent_def)
  have 2: "inScope (OrganizationTarget org) ?valid"
    by (simp add: SendOrgCheckRunEvent_def)
  have 3: "inScope (OrganizationTarget org) ?example"
    by (simp add: SendOrgCheckRunEvent_def)
  have v: "inScope tgt ?valid \<Longrightarrow>
      scaleUp hra tgt now ?valid st = st\<lparr>capacityReservations := capacityReservations st @ [?r]\<rparr>"
    using mv by (simp add: scaleUp_single_trigger [OF one] reservationOf_def)
  then have 4: "inScope tgt ?valid \<longrightarrow>
      scaleUp hra tgt now ?valid st = st\<lparr>capacityReservations := capacityReservations st @ [?r]\<rparr>"
    by (rule impI)
  have 5: "scaleUp hra tgt now ?example st = st"
    using me by (simp add: scaleUp_single_trigger [OF one])
  have 6: "matches (CheckRun types s repos) e =
      (eventType e = ''check_run'' \<and> action e \<in> set types \<and> s = status e \<and>
       (repos = [] \<or> repository e \<in> set repos))"
    by simp
  have 7: "matches (CheckRun types s []) (e\<lparr>repository := r\<rparr>) = matches (CheckRun types s []) e"
    by simp
  have 8: "desiredReplicas st = Some d \<and>
      d = baseline hra p tgt + reservationSum now' (capacityReservations st) \<and>
      lo \<le> d \<and> d \<le> hi \<longrightarrow>
      desiredReplicas (newStatus (reconcile hra lo hi p tgt now' (scaleUp hra tgt now ?example st)))
        = Some d"
  proof
    assume a: "desiredReplicas st = Some d \<and>
      d = baseline hra p tgt + reservationSum now' (capacityReservations st) \<and>
      lo \<le> d \<and> d \<le> hi"
    have "raw hra lo hi p tgt now' st = clamp d lo hi"
      using a by (simp add: raw_def)
    also have "\<dots> = d"
      using a by (intro clamp_inside) simp_all
    finally have r0: "raw hra lo hi p tgt now' st = d" .
    with a show "desiredReplicas (newStatus (reconcile hra lo hi p tgt now'
        (scaleUp hra tgt now ?example st))) = Some d"
      by (simp add: 5 reconcile_no_scale_down)
  qed
  have 9: "desiredReplicas st = Some d \<and>
      d = baseline hra p tgt + reservationSum now' (capacityReservations st) \<and>
      lo \<le> d \<and> d \<le> hi \<and> inScope tgt ?valid \<and>
      now \<le> now' \<and> now' < now + duration t \<and> 0 \<le> amount t \<longrightarrow>
      desiredReplicas (newStatus (reconcile hra lo hi p tgt now' (scaleUp hra tgt now ?valid st)))
        = Some (if d + amount t \<le> hi then d + amount t else hi)"
  proof
    assume a: "desiredReplicas st = Some d \<and>
      d = baseline hra p tgt + reservationSum now' (capacityReservations st) \<and>
      lo \<le> d \<and> d \<le> hi \<and> inScope tgt ?valid \<and>
      now \<le> now' \<and> now' < now + duration t \<and> 0 \<le> amount t"
    let ?st' = "scaleUp hra tgt now ?valid st"
    have st': "?st' = st\<lparr>capacityReservations := capacityReservations st @ [?r]\<rparr>"
      using a v by simp
    have act: "active now' ?r"
      using a by (simp add: active_def)
    have d: "d = baseline hra p tgt + reservationSum now' (capacityReservations st)"
      using a by simp
    have "raw hra lo hi p tgt now' ?st' =
        clamp (baseline hra p tgt + (reservationSum now' (capacityReservations st) + amount t)) lo hi"
      using act by (simp add: st' raw_scaleUp_cong reservationSum_append)
    also have "\<dots> = clamp (d + amount t) lo hi"
      by (simp add: d add.assoc)
    finally have r: "raw hra lo hi p tgt now' ?st' = clamp (d + amount t) lo hi" .
    have c: "clamp (d + amount t) lo hi = (if d + amount t \<le> hi then d + amount t else hi)"
      "d \<le> clamp (d + amount t) lo hi"
      using a by (simp_all add: clamp_raised)
    have "desiredReplicas ?st' = Some d"
      using a by (simp add: st')
    moreover have "d \<le> raw hra lo hi p tgt now' ?st'"
      using r c(2) by simp
    ultimately have "desiredReplicas (newStatus (reconcile hra lo hi p tgt now' ?st')) =
        Some (raw hra lo hi p tgt now' ?st')"
      by (rule reconcile_no_scale_down)
    then show "desiredReplicas (newStatus (reconcile hra lo hi p tgt now' ?st')) =
        Some (if d + amount t \<le> hi then d + amount t else hi)"
      using r c(1) by simp
  qed
  show ?thesis
    apply (intro conjI)
            apply (rule 1)
           apply (rule 2)
          apply (rule 3)
         apply (rule 4)
        apply (rule 5)
       apply (rule 6)
      apply (rule 7)
     apply (rule 8)
    apply (rule 9)
    done
qed

text \<open>
  Two steps of the test "should create and scale organization's repository
  runners on check_run event".  At three replicas, the event for \<^verbatim>\<open>valid\<close> at
  time 10 and a reconcile at time 11 give four.  At five replicas, with the
  two reservations of times 10 and 20 active, the event for \<^verbatim>\<open>example\<close> at time
  30 and a reconcile at time 31 leave five.
\<close>

theorem check_run_trigger_filters_repositories_witness:
  "desiredReplicas (newStatus (reconcile checkRunHRA 1 5
       (fakeProvider ListRepositoryWorkflowRuns) testTarget 11
       (scaleUp checkRunHRA testTarget 10
          (SendOrgCheckRunEvent ''test'' ''valid'' ''pending'' ''created'')
          \<lparr>desiredReplicas = Some 3, lastSuccessfulScaleOutTime = None,
            capacityReservations = []\<rparr>))) = Some 4 \<and>
   desiredReplicas (newStatus (reconcile checkRunHRA 1 5
       (fakeProvider ListRepositoryWorkflowRuns) testTarget 31
       (scaleUp checkRunHRA testTarget 30
          (SendOrgCheckRunEvent ''test'' ''example'' ''pending'' ''created'')
          \<lparr>desiredReplicas = Some 5, lastSuccessfulScaleOutTime = Some 21,
            capacityReservations =
              [\<lparr>effectiveTime = 10, expirationTime = 70, replicas = 1\<rparr>,
               \<lparr>effectiveTime = 20, expirationTime = 80, replicas = 1\<rparr>]\<rparr>))) = Some 5"
proof -
  let ?st = "\<lparr>desiredReplicas = Some 3, lastSuccessfulScaleOutTime = None,
      capacityReservations = []\<rparr>"
  let ?st5 = "\<lparr>desiredReplicas = Some 5, lastSuccessfulScaleOutTime = Some 21,
      capacityReservations =
        [\<lparr>effectiveTime = 10, expirationTime = 70, replicas = 1\<rparr>,
         \<lparr>effectiveTime = 20, expirationTime = 80, replicas = 1\<rparr>]\<rparr>"
  let ?p = "fakeProvider ListRepositoryWorkflowRuns"
  let ?valid = "SendOrgCheckRunEvent ''test'' ''valid'' ''pending'' ''created''"
  let ?example = "SendOrgCheckRunEvent ''test'' ''example'' ''pending'' ''created''"
  have one: "scaleUpTriggers checkRunHRA = [checkRunTrigger]"
    by (simp add: checkRunHRA_def)
  have m: "eventMatcher checkRunTrigger = CheckRun [''created''] ''pending'' [''valid'', ''foo'', ''bar'']"
    by (simp add: checkRunTrigger_def)
  have mr: "metricReplicas checkRunHRA ?p testTarget = 3"
    by (simp add: metricReplicas_listing [where ms = "[]"] checkRunHRA_def fixture_listings)
  have mn: "minReplicas checkRunHRA = 1"
    by (simp add: checkRunHRA_def)
  have b: "baseline checkRunHRA ?p testTarget = 3"
    by (simp add: baseline_def mr mn)
  have sc: "inScope testTarget ?valid"
    by (simp add: testTarget_def SendOrgCheckRunEvent_def)
  have h: "desiredReplicas ?st = Some 3 \<and>
      3 = baseline checkRunHRA ?p testTarget + reservationSum 11 (capacityReservations ?st) \<and>
      (1::int) \<le> 3 \<and> (3::int) \<le> 5 \<and> inScope testTarget ?valid \<and>
      (10::int) \<le> 11 \<and> 11 < 10 + duration checkRunTrigger \<and> 0 \<le> amount checkRunTrigger"
    by (simp add: b sc reservationSum_Nil checkRunTrigger_def)
  have h5: "desiredReplicas ?st5 = Some 5 \<and>
      5 = baseline checkRunHRA ?p testTarget + reservationSum 31 (capacityReservations ?st5) \<and>
      (1::int) \<le> 5 \<and> (5::int) \<le> 5"
    by (simp add: b reservationSum_def active_def)
  note t = check_run_trigger_filters_repositories [OF one m,
      where now = 10 and now' = 11 and org = "''test''" and st = ?st and d = 3
        and lo = 1 and hi = 5 and p = ?p and tgt = testTarget and e = ?valid and r = "[]"
        and types = "[]" and s = "[]" and repos = "[]"]
  note t5 = check_run_trigger_filters_repositories [OF one m,
      where now = 30 and now' = 31 and org = "''test''" and st = ?st5 and d = 5
        and lo = 1 and hi = 5 and p = ?p and tgt = testTarget and e = ?valid and r = "[]"
        and types = "[]" and s = "[]" and repos = "[]"]
  have "desiredReplicas ?st = Some 3 \<and>
      3 = baseline checkRunHRA ?p testTarget + reservationSum 11 (capacityReservations ?st) \<and>
      (1::int) \<le> 3 \<and> (3::int) \<le> 5 \<and> inScope testTarget ?valid \<and>
      (10::int) \<le> 11 \<and> 11 < 10 + duration checkRunTrigger \<and> 0 \<le> amount checkRunTrigger \<longrightarrow>
      desiredReplicas (newStatus (reconcile checkRunHRA 1 5 ?p testTarget 11
        (scaleUp checkRunHRA testTarget 10 ?valid ?st)))
        = Some (if 3 + amount checkRunTrigger \<le> 5 then 3 + amount checkRunTrigger else 5)"
    using t by (elim conjE)
  with h have first: "desiredReplicas (newStatus (reconcile checkRunHRA 1 5 ?p testTarget 11
        (scaleUp checkRunHRA testTarget 10 ?valid ?st)))
        = Some (if 3 + amount checkRunTrigger \<le> 5 then 3 + amount checkRunTrigger else 5)"
    by (rule mp [rotated])
  have "desiredReplicas ?st5 = Some 5 \<and>
      5 = baseline checkRunHRA ?p testTarget + reservationSum 31 (capacityReservations ?st5) \<and>
      (1::int) \<le> 5 \<and> (5::int) \<le> 5 \<longrightarrow>
      desiredReplicas (newStatus (reconcile checkRunHRA 1 5 ?p testTarget 31
        (scaleUp checkRunHRA testTarget 30 ?example ?st5))) = Some 5"
    using t5 by (elim conjE)
  with h5 have third: "desiredReplicas (newStatus (reconcile checkRunHRA 1 5 ?p testTarget 31
        (scaleUp checkRunHRA testTarget 30 ?example ?st5))) = Some 5"
    by (rule mp [rotated])
  from first third show ?thesis
    by (simp add: checkRunTrigger_def)
qed

text \<open>
  The whole run of that test: three replicas from the metric, four and five
  after the two events for \<^verbatim>\<open>valid\<close>, still five after the event for \<^verbatim>\<open>example\<close>.
\<close>

lemma check_run_test_run:
  fixes s0 s1 s2 s3 :: HRAStatus
  defines "s0 \<equiv> newStatus (reconcile checkRunHRA 1 5 (fakeProvider ListRepositoryWorkflowRuns)
                testTarget 0 emptyStatus)"
    and "s1 \<equiv> newStatus (reconcile checkRunHRA 1 5 (fakeProvider ListRepositoryWorkflowRuns)
                testTarget 11
                (scaleUp checkRunHRA testTarget 10
                   (SendOrgCheckRunEvent ''test'' ''valid'' ''pending'' ''created'') s0))"
    and "s2 \<equiv> newStatus (reconcile checkRunHRA 1 5 (fakeProvider ListRepositoryWorkflowRuns)
                testTarget 21
                (scaleUp checkRunHRA testTarget 20
                   (SendOrgCheckRunEvent ''test'' ''valid'' ''pending'' ''created'') s1))"
    and "s3 \<equiv> newStatus (reconcile checkRunHRA 1 5 (fakeProvider ListRepositoryWorkflowRuns)
                testTarget 31
                (scaleUp checkRunHRA testTarget 30
                   (SendOrgCheckRunEvent ''test'' ''example'' ''pending'' ''created'') s2))"
  shows "desiredReplicas s0 = Some 3 \<and> desiredReplicas s1 = Some 4 \<and>
         desiredReplicas s2 = Some 5 \<and> desiredReplicas s3 = Some 5 \<and>
         length (capacityReservations s3) = 2"
proof -
  let ?p = "fakeProvider ListRepositoryWorkflowRuns"
  have b: "baseline checkRunHRA ?p testTarget = 3"
    by (simp add: baseline_def metricReplicas_listing [where ms = "[]"] checkRunHRA_def
        fixture_listings)
  have tr: "scaleUpTriggers checkRunHRA = [checkRunTrigger]"
    "scaleDownDelaySecondsAfterScaleUp checkRunHRA = 1"
    by (simp_all add: checkRunHRA_def)
  have mv: "inScope testTarget (SendOrgCheckRunEvent ''test'' ''valid'' ''pending'' ''created'') \<and>
      matches (eventMatcher checkRunTrigger)
        (SendOrgCheckRunEvent ''test'' ''valid'' ''pending'' ''created'')"
    and me: "\<not> matches (eventMatcher checkRunTrigger)
      (SendOrgCheckRunEvent ''test'' ''example'' ''pending'' ''created'')"
    by (simp_all add: checkRunTrigger_def SendOrgCheckRunEvent_def testTarget_def)
  have r: "reservationOf n checkRunTrigger =
      \<lparr>effectiveTime = n, expirationTime = n + 60, replicas = 1\<rparr>" for n
    by (simp add: reservationOf_def checkRunTrigger_def)
  have e0: "s0 = \<lparr>desiredReplicas = Some 3, lastSuccessfulScaleOutTime = None,
      capacityReservations = []\<rparr>"
    unfolding s0_def by (rule fixture_first_reconcile)
  have e1: "s1 = \<lparr>desiredReplicas = Some 4, lastSuccessfulScaleOutTime = Some 11,
      capacityReservations = [\<lparr>effectiveTime = 10, expirationTime = 70, replicas = 1\<rparr>]\<rparr>"
    unfolding s1_def e0
    by (simp add: scaleUp_single_trigger [OF tr(1)] mv r reconcile_def Let_def raw_def b
        reservationSum_def active_def clamp_def collect_def)
  have e2: "s2 = \<lparr>desiredReplicas = Some 5, lastSuccessfulScaleOutTime = Some 21,
      capacityReservations = [\<lparr>effectiveTime = 10, expirationTime = 70, replicas = 1\<rparr>,
        \<lparr>effectiveTime = 20, expirationTime = 80, replicas = 1\<rparr>]\<rparr>"
    unfolding s2_def e1
    by (simp add: scaleUp_single_trigger [OF tr(1)] mv r reconcile_def Let_def raw_def b
        reservationSum_def active_def clamp_def collect_def tr(2))
  have e3: "s3 = s2"
    unfolding s3_def
    by (simp add: scaleUp_single_trigger [OF tr(1)] me e2 reconcile_def Let_def raw_def b
        reservationSum_def active_def clamp_def collect_def tr(2))
  show ?thesis
    by (simp add: e0 e1 e2 e3)
qed

text \<open>
  The run of the test "should create and scale organization's repository
  runners on workflow_job event" (lines 610 to 637): one replica without
  metrics, two and three after the two events for \<^verbatim>\<open>valid\<close>, still three after
  the event for \<^verbatim>\<open>example\<close>, which is out of the deployment's scope.
\<close>

lemma workflow_job_test_run:
  fixes s0 s1 s2 s3 :: HRAStatus
  defines "s0 \<equiv> newStatus (reconcile workflowJobHRA 1 5 (fakeProvider ListRepositoryWorkflowRuns)
                testTarget 0 emptyStatus)"
    and "s1 \<equiv> newStatus (reconcile workflowJobHRA 1 5 (fakeProvider ListRepositoryWorkflowRuns)
                testTarget 11
                (scaleUp workflowJobHRA testTarget 10
                   (SendWorkflowJobEvent ''test'' ''valid'' ''queued'' [''self-hosted'']) s0))"
    and "s2 \<equiv> newStatus (reconcile workflowJobHRA 1 5 (fakeProvider ListRepositoryWorkflowRuns)
                testTarget 21
                (scaleUp workflowJobHRA testTarget 20
                   (SendWorkflowJobEvent ''test'' ''valid'' ''queued'' [''self-hosted'']) s1))"
    and "s3 \<equiv> newStatus (reconcile workflowJobHRA 1 5 (fakeProvider ListRepositoryWorkflowRuns)
                testTarget 31
                (scaleUp workflowJobHRA testTarget 30
                   (SendWorkflowJobEvent ''test'' ''example'' ''queued'' [''self-hosted'']) s2))"
  shows "desiredReplicas s0 = Some 1 \<and> desiredReplicas s1 = Some 2 \<and>
         desiredReplicas s2 = Some 3 \<and> desiredReplicas s3 = Some 3 \<and>
         length (capacityReservations s3) = 2"
proof -
  let ?p = "fakeProvider ListRepositoryWorkflowRuns"
  let ?t = "\<lparr>eventMatcher = WorkflowJob, amount = 1, duration = 60\<rparr>"
  have b: "baseline workflowJobHRA ?p testTarget = 1"
    by (simp add: baseline_def metricReplicas_def workflowJobHRA_def)
  have tr: "scaleUpTriggers workflowJobHRA = [?t]"
    "scaleDownDelaySecondsAfterScaleUp workflowJobHRA = 1"
    by (simp_all add: workflowJobHRA_def)
  have mv: "inScope testTarget (SendWorkflowJobEvent ''test'' ''valid'' ''queued'' [''self-hosted'']) \<and>
      matches (eventMatcher ?t) (SendWorkflowJobEvent ''test'' ''valid'' ''queued'' [''self-hosted''])"
    and me: "\<not> inScope testTarget
      (SendWorkflowJobEvent ''test'' ''example'' ''queued'' [''self-hosted''])"
    by (simp_all add: SendWorkflowJobEvent_def testTarget_def)
  have et: "eventType (SendWorkflowJobEvent org repo sa ls) = ''workflow_job''" for org repo sa ls
    by (simp add: SendWorkflowJobEvent_def)
  have r: "reservationOf n ?t = \<lparr>effectiveTime = n, expirationTime = n + 60, replicas = 1\<rparr>" for n
    by (simp add: reservationOf_def)
  have e0: "s0 = \<lparr>desiredReplicas = Some 1, lastSuccessfulScaleOutTime = None,
      capacityReservations = []\<rparr>"
    unfolding s0_def
    by (simp add: reconcile_def Let_def raw_def b reservationSum_def clamp_def collect_def
        emptyStatus_def)
  have e1: "s1 = \<lparr>desiredReplicas = Some 2, lastSuccessfulScaleOutTime = Some 11,
      capacityReservations = [\<lparr>effectiveTime = 10, expirationTime = 70, replicas = 1\<rparr>]\<rparr>"
    unfolding s1_def e0
    by (simp add: scaleUp_single_trigger [OF tr(1)] mv et r reconcile_def Let_def raw_def b
        reservationSum_def active_def clamp_def collect_def)
  have e2: "s2 = \<lparr>desiredReplicas = Some 3, lastSuccessfulScaleOutTime = Some 21,
      capacityReservations = [\<lparr>effectiveTime = 10, expirationTime = 70, replicas = 1\<rparr>,
        \<lparr>effectiveTime = 20, expirationTime = 80, replicas = 1\<rparr>]\<rparr>"
    unfolding s2_def e1
    by (simp add: scaleUp_single_trigger [OF tr(1)] mv et r reconcile_def Let_def raw_def b
        reservationSum_def active_def clamp_def collect_def tr(2))
  have e3: "s3 = s2"
    unfolding s3_def
    by (simp add: scaleUp_single_trigger [OF tr(1)] me e2 reconcile_def Let_def raw_def b
        reservationSum_def active_def clamp_def collect_def tr(2))
  show ?thesis
    by (simp add: e0 e1 e2 e3)
qed

end
